theory Spec2Isabelle
  imports Main "HOL-Library.AList"
begin

section \<open>Python values, dictionaries and schema instances\<close>

text \<open>
  The routes of both adapters pass around primary-key values, the results of statement
  executions and records. A value is \<open>None\<close>, an integer or a string; \<open>truthy\<close> is
  Python's truth test, used by \<^verbatim>\<open>if rid:\<close> and \<^verbatim>\<open>if limit:\<close>.
\<close>

datatype val = PyNone | PyInt int | PyStr string

fun truthy :: "val \<Rightarrow> bool" where
  "truthy PyNone = False"
| "truthy (PyInt n) = (n \<noteq> 0)"
| "truthy (PyStr s) = (s \<noteq> [])"

text \<open>
  A \<open>dict\<close> keeps insertion order. Assigning to a key that is present replaces the value
  in place, assigning to a new key appends it: this is \<open>AList.update\<close>. The display
  \<^verbatim>\<open>{k: v, **d}\<close> starts from \<^verbatim>\<open>{k: v}\<close> and assigns the items of \<open>d\<close> from left to
  right.
\<close>

type_synonym dict = "(string \<times> val) list"

definition dict_merge :: "dict \<Rightarrow> dict \<Rightarrow> dict" where
  "dict_merge base extra = fold (\<lambda>(k, v). AList.update k v) extra base"

definition keys :: "dict \<Rightarrow> string set" where
  "keys d = fst ` set d"

text \<open>
  A schema instance: its field values, and the names of the fields the caller set
  explicitly. \<^verbatim>\<open>schema.dict()\<close>, \<^verbatim>\<open>schema.dict(exclude={...})\<close> and
  \<^verbatim>\<open>schema.dict(exclude_unset=True)\<close> are the three serialisations the routes use.
\<close>

record schema_obj =
  field_values :: dict
  fields_set :: "string list"

definition schema_dict :: "schema_obj \<Rightarrow> dict" where
  "schema_dict s = field_values s"

definition schema_dict_exclude :: "schema_obj \<Rightarrow> string list \<Rightarrow> dict" where
  "schema_dict_exclude s ex = filter (\<lambda>(k, v). k \<notin> set ex) (field_values s)"

definition schema_dict_exclude_unset :: "schema_obj \<Rightarrow> dict" where
  "schema_dict_exclude_unset s = filter (\<lambda>(k, v). k \<in> set (fields_set s)) (field_values s)"

text \<open>\<^verbatim>\<open>PAGINATION = Dict[str, Optional[int]]\<close>, read with \<^verbatim>\<open>.get("skip")\<close> and \<^verbatim>\<open>.get("limit")\<close>.\<close>

record pagination =
  pg_skip :: "int option"
  pg_limit :: "int option"

text \<open>
  An exception raised by a backend is named by its class. A route ends with a record (or
  a list of records), with an \<open>HTTPException\<close> the route raised itself, or with a backend
  exception that it let through.
\<close>

type_synonym exn = string

datatype error = HTTPException nat string | Propagated exn

text \<open>
  Modelled from the spec: \<open>NOT_FOUND\<close> is imported from the package's base module, which
  is not among the sources. The specification gives it as a structured error with status
  code 404; the detail text is immaterial, no route inspects it.
\<close>

definition NOT_FOUND :: error where
  "NOT_FOUND = HTTPException 404 ''Item not found''"

section \<open>The query-builder adapter (databases.py)\<close>

text \<open>
  A query object as the routes build it: \<^verbatim>\<open>table.select()\<close>, \<^verbatim>\<open>table.insert()\<close>,
  \<^verbatim>\<open>table.update()\<close>, \<^verbatim>\<open>table.delete()\<close>, refined by \<^verbatim>\<open>.where(col == v)\<close>,
  \<^verbatim>\<open>.limit(n)\<close> and \<^verbatim>\<open>.offset(n)\<close>.
\<close>

datatype stmt = SelectStmt | InsertStmt | UpdateStmt | DeleteStmt

record query =
  q_stmt :: stmt
  q_where :: "(string \<times> val) option"
  q_limit :: "int option"
  q_offset :: "int option"

definition table_select :: query where
  "table_select = \<lparr>q_stmt = SelectStmt, q_where = None, q_limit = None, q_offset = None\<rparr>"

definition table_insert :: query where
  "table_insert = \<lparr>q_stmt = InsertStmt, q_where = None, q_limit = None, q_offset = None\<rparr>"

definition table_update :: query where
  "table_update = \<lparr>q_stmt = UpdateStmt, q_where = None, q_limit = None, q_offset = None\<rparr>"

definition table_delete :: query where
  "table_delete = \<lparr>q_stmt = DeleteStmt, q_where = None, q_limit = None, q_offset = None\<rparr>"

definition where_eq :: "query \<Rightarrow> string \<Rightarrow> val \<Rightarrow> query" where
  "where_eq q col v = q\<lparr>q_where := Some (col, v)\<rparr>"

definition limit_q :: "query \<Rightarrow> int option \<Rightarrow> query" where
  "limit_q q n = q\<lparr>q_limit := n\<rparr>"

definition offset_q :: "query \<Rightarrow> int option \<Rightarrow> query" where
  "offset_q q n = q\<lparr>q_offset := n\<rparr>"

text \<open>
  The database handle is the collaborator the adapter calls into. Its three entry points
  are parameters of the model: a read answers from the current state \<open>'st\<close> of the
  store, an execution answers and leaves a new state, and each may raise.
\<close>

record 'st database =
  fetch_all :: "query \<Rightarrow> 'st \<Rightarrow> exn + dict list"
  fetch_one :: "query \<Rightarrow> 'st \<Rightarrow> exn + dict option"
  execute :: "query \<Rightarrow> dict option \<Rightarrow> 'st \<Rightarrow> (exn + val) \<times> 'st"

text \<open>
  The table descriptor and the router. \<^verbatim>\<open>__init__\<close> takes the name of the first
  primary-key column (\<^verbatim>\<open>values()[0]\<close> raises \<open>IndexError\<close> when there is none).
\<close>

record table =
  table_name :: string
  primary_key_columns :: "string list"

record 'st DatabasesCRUDRouter =
  d_table :: table
  d_db :: "'st database"
  d_pk :: string

definition Databases_init :: "table \<Rightarrow> 'st database \<Rightarrow> exn + 'st DatabasesCRUDRouter" where
  "Databases_init tbl database =
     (case primary_key_columns tbl of
        [] \<Rightarrow> Inl ''IndexError''
      | c # _ \<Rightarrow> Inr \<lparr>d_table = tbl, d_db = database, d_pk = c\<rparr>)"

text \<open>A fetched row is a \<open>Mapping\<close>: \<^verbatim>\<open>if model:\<close> holds for a row with at least one column.\<close>

fun truthy_row :: "dict option \<Rightarrow> bool" where
  "truthy_row None = False"
| "truthy_row (Some r) = (r \<noteq> [])"

definition Databases_get_all ::
  "'st DatabasesCRUDRouter \<Rightarrow> pagination \<Rightarrow> 'st \<Rightarrow> error + dict list" where
  "Databases_get_all R pg st =
     (let skip = pg_skip pg; limit = pg_limit pg;
          query = offset_q (limit_q table_select limit) skip
      in case fetch_all (d_db R) query st of
           Inl e \<Rightarrow> Inl (Propagated e)
         | Inr rows \<Rightarrow> Inr rows)"

definition Databases_get_one ::
  "'st DatabasesCRUDRouter \<Rightarrow> val \<Rightarrow> 'st \<Rightarrow> error + dict" where
  "Databases_get_one R item_id st =
     (let query = where_eq table_select (d_pk R) item_id
      in case fetch_one (d_db R) query st of
           Inl e \<Rightarrow> Inl (Propagated e)
         | Inr None \<Rightarrow> Inl NOT_FOUND
         | Inr (Some model) \<Rightarrow> if truthy_row (Some model) then Inr model else Inl NOT_FOUND)"

text \<open>\<^verbatim>\<open>except Exception\<close> turns whatever the insert raised into the 422 error.\<close>

definition Databases_create ::
  "'st DatabasesCRUDRouter \<Rightarrow> schema_obj \<Rightarrow> 'st \<Rightarrow> (error + dict) \<times> 'st" where
  "Databases_create R schema st =
     (let query = table_insert
      in case execute (d_db R) query (Some (schema_dict schema)) st of
           (Inl e, st') \<Rightarrow> (Inl (HTTPException 422 ''Key already exists''), st')
         | (Inr rid, st') \<Rightarrow> (Inr (dict_merge [(d_pk R, rid)] (schema_dict schema)), st'))"

definition Databases_update ::
  "'st DatabasesCRUDRouter \<Rightarrow> val \<Rightarrow> schema_obj \<Rightarrow> 'st \<Rightarrow> (error + dict) \<times> 'st" where
  "Databases_update R item_id schema st =
     (let query = where_eq table_update (d_pk R) item_id
      in case execute (d_db R) query (Some (schema_dict_exclude schema [d_pk R])) st of
           (Inl e, st') \<Rightarrow> (Inl (Propagated e), st')
         | (Inr rid, st') \<Rightarrow>
             if truthy rid
             then (Inr (dict_merge [(d_pk R, rid)] (schema_dict schema)), st')
             else (Inl NOT_FOUND, st'))"

definition Databases_delete_all ::
  "'st DatabasesCRUDRouter \<Rightarrow> 'st \<Rightarrow> (error + dict list) \<times> 'st" where
  "Databases_delete_all R st =
     (let query = table_delete
      in case execute (d_db R) query None st of
           (Inl e, st') \<Rightarrow> (Inl (Propagated e), st')
         | (Inr _, st') \<Rightarrow>
             (Databases_get_all R \<lparr>pg_skip = Some 0, pg_limit = None\<rparr> st', st'))"

definition Databases_delete_one ::
  "'st DatabasesCRUDRouter \<Rightarrow> val \<Rightarrow> 'st \<Rightarrow> (error + dict) \<times> 'st" where
  "Databases_delete_one R item_id st =
     (let query = where_eq table_delete (d_pk R) item_id
      in case Databases_get_one R item_id st of
           Inl e \<Rightarrow> (Inl e, st)
         | Inr row \<Rightarrow>
             (case execute (d_db R) query None st of
                (Inl e, st') \<Rightarrow> (Inl (Propagated e), st')
              | (Inr rid, st') \<Rightarrow>
                  if truthy rid then (Inr row, st') else (Inl NOT_FOUND, st')))"

section \<open>The active-record adapter (tortoise.py)\<close>

text \<open>
  A queryset as the routes build it: \<^verbatim>\<open>db_model.all()\<close> or
  \<^verbatim>\<open>db_model.filter(field=v)\<close>, refined by \<^verbatim>\<open>.offset(n)\<close> and \<^verbatim>\<open>.limit(n)\<close>.
\<close>

record queryset =
  qs_filter :: "(string \<times> val) option"
  qs_offset :: "int option"
  qs_limit :: "int option"

definition model_all :: queryset where
  "model_all = \<lparr>qs_filter = None, qs_offset = None, qs_limit = None\<rparr>"

definition model_filter :: "string \<Rightarrow> val \<Rightarrow> queryset" where
  "model_filter field v = \<lparr>qs_filter = Some (field, v), qs_offset = None, qs_limit = None\<rparr>"

definition offset_qs :: "queryset \<Rightarrow> int option \<Rightarrow> queryset" where
  "offset_qs q n = q\<lparr>qs_offset := n\<rparr>"

definition limit_qs :: "queryset \<Rightarrow> int \<Rightarrow> queryset" where
  "limit_qs q n = q\<lparr>qs_limit := Some n\<rparr>"

text \<open>
  The model class is the collaborator: what \<^verbatim>\<open>describe()\<close> reports, awaiting a queryset,
  \<^verbatim>\<open>.first()\<close>, \<^verbatim>\<open>.update(**kwargs)\<close>, \<^verbatim>\<open>.delete()\<close>, and constructing an instance
  from keyword arguments followed by \<^verbatim>\<open>.save()\<close>. An instance is given by its field
  values; as an object it is always true in \<^verbatim>\<open>if model:\<close>.
\<close>

record 'st model_class =
  describe_pk_db_column :: string
  describe_name :: string
  await_qs :: "queryset \<Rightarrow> 'st \<Rightarrow> exn + dict list"
  first_qs :: "queryset \<Rightarrow> 'st \<Rightarrow> exn + dict option"
  update_qs :: "queryset \<Rightarrow> dict \<Rightarrow> 'st \<Rightarrow> (exn + int) \<times> 'st"
  delete_qs :: "queryset \<Rightarrow> 'st \<Rightarrow> (exn + int) \<times> 'st"
  construct_save :: "dict \<Rightarrow> 'st \<Rightarrow> (exn + dict) \<times> 'st"

record 'st TortoiseCRUDRouter =
  t_db_model :: "'st model_class"
  t_pk :: string

definition Tortoise_init :: "'st model_class \<Rightarrow> 'st TortoiseCRUDRouter" where
  "Tortoise_init db_model = \<lparr>t_db_model = db_model, t_pk = describe_pk_db_column db_model\<rparr>"

text \<open>The queryset of the list route: the offset always, the limit only when it is true.\<close>

definition Tortoise_get_all_query :: "pagination \<Rightarrow> queryset" where
  "Tortoise_get_all_query pg =
     (let skip = pg_skip pg; limit = pg_limit pg;
          query = offset_qs model_all skip
      in case limit of
           Some n \<Rightarrow> if truthy (PyInt n) then limit_qs query n else query
         | None \<Rightarrow> query)"

definition Tortoise_get_all ::
  "'st TortoiseCRUDRouter \<Rightarrow> pagination \<Rightarrow> 'st \<Rightarrow> error + dict list" where
  "Tortoise_get_all T pg st =
     (case await_qs (t_db_model T) (Tortoise_get_all_query pg) st of
        Inl e \<Rightarrow> Inl (Propagated e)
      | Inr models \<Rightarrow> Inr models)"

definition Tortoise_get_one ::
  "'st TortoiseCRUDRouter \<Rightarrow> int \<Rightarrow> 'st \<Rightarrow> error + dict" where
  "Tortoise_get_one T item_id st =
     (case first_qs (t_db_model T) (model_filter ''id'' (PyInt item_id)) st of
        Inl e \<Rightarrow> Inl (Propagated e)
      | Inr (Some model) \<Rightarrow> Inr model
      | Inr None \<Rightarrow> Inl NOT_FOUND)"

definition Tortoise_create ::
  "'st TortoiseCRUDRouter \<Rightarrow> schema_obj \<Rightarrow> 'st \<Rightarrow> (error + dict) \<times> 'st" where
  "Tortoise_create T model st =
     (case construct_save (t_db_model T) (schema_dict model) st of
        (Inl e, st') \<Rightarrow> (Inl (Propagated e), st')
      | (Inr db_model, st') \<Rightarrow> (Inr db_model, st'))"

definition Tortoise_update ::
  "'st TortoiseCRUDRouter \<Rightarrow> int \<Rightarrow> schema_obj \<Rightarrow> 'st \<Rightarrow> (error + dict) \<times> 'st" where
  "Tortoise_update T item_id model st =
     (case update_qs (t_db_model T) (model_filter ''id'' (PyInt item_id))
             (schema_dict_exclude_unset model) st of
        (Inl e, st') \<Rightarrow> (Inl (Propagated e), st')
      | (Inr _, st') \<Rightarrow> (Tortoise_get_one T item_id st', st'))"

definition Tortoise_delete_all ::
  "'st TortoiseCRUDRouter \<Rightarrow> 'st \<Rightarrow> (error + dict list) \<times> 'st" where
  "Tortoise_delete_all T st =
     (case delete_qs (t_db_model T) model_all st of
        (Inl e, st') \<Rightarrow> (Inl (Propagated e), st')
      | (Inr _, st') \<Rightarrow>
          (Tortoise_get_all T \<lparr>pg_skip = Some 0, pg_limit = None\<rparr> st', st'))"

definition Tortoise_delete_one ::
  "'st TortoiseCRUDRouter \<Rightarrow> int \<Rightarrow> 'st \<Rightarrow> (error + dict) \<times> 'st" where
  "Tortoise_delete_one T item_id st =
     (case Tortoise_get_one T item_id st of
        Inl e \<Rightarrow> (Inl e, st)
      | Inr model \<Rightarrow>
          (case delete_qs (t_db_model T) (model_filter ''id'' (PyInt item_id)) st of
             (Inl e, st') \<Rightarrow> (Inl (Propagated e), st')
           | (Inr _, st') \<Rightarrow> (Inr model, st')))"

section \<open>An in-memory store behind both collaborators\<close>

text \<open>
  The engines themselves are outside the repository. For closed instances of the
  theorems below, and for the properties that speak about the content of the store, the
  collaborators are instantiated by a table held in memory: the rows in insertion order,
  one column \<open>col\<close> serving as primary key. An insert assigns the next integer key when
  the values carry none, and refuses a key that is taken; an update or a delete reports
  the number of rows it touched.
\<close>

type_synonym store = "dict list"

definition matches :: "(string \<times> val) option \<Rightarrow> dict \<Rightarrow> bool" where
  "matches w row = (case w of None \<Rightarrow> True | Some (col, v) \<Rightarrow> map_of row col = Some v)"

definition window :: "int option \<Rightarrow> int option \<Rightarrow> dict list \<Rightarrow> dict list" where
  "window off lim rows =
     (let rest = drop (nat (case off of None \<Rightarrow> 0 | Some n \<Rightarrow> n)) rows
      in case lim of None \<Rightarrow> rest | Some n \<Rightarrow> take (nat n) rest)"

definition select_rows :: "(string \<times> val) option \<Rightarrow> int option \<Rightarrow> int option \<Rightarrow> store \<Rightarrow> dict list" where
  "select_rows w off lim rows = window off lim (filter (matches w) rows)"

definition select_first :: "(string \<times> val) option \<Rightarrow> int option \<Rightarrow> int option \<Rightarrow> store \<Rightarrow> dict option" where
  "select_first w off lim rows =
     (case select_rows w off lim rows of [] \<Rightarrow> None | r # _ \<Rightarrow> Some r)"

definition bump_key :: "string \<Rightarrow> dict \<Rightarrow> int \<Rightarrow> int" where
  "bump_key col row m = (case map_of row col of Some (PyInt n) \<Rightarrow> max n m | _ \<Rightarrow> m)"

definition next_key :: "string \<Rightarrow> store \<Rightarrow> int" where
  "next_key col rows = 1 + fold (bump_key col) rows 0"

definition key_taken :: "string \<Rightarrow> val \<Rightarrow> store \<Rightarrow> bool" where
  "key_taken col v rows = list_ex (\<lambda>r. map_of r col = Some v) rows"

definition insert_row :: "string \<Rightarrow> dict \<Rightarrow> store \<Rightarrow> (exn + val \<times> dict) \<times> store" where
  "insert_row col vs rows =
     (let given = (case map_of vs col of Some v \<Rightarrow> v | None \<Rightarrow> PyNone)
      in if given = PyNone
         then (let k = PyInt (next_key col rows); row = AList.update col k vs
               in (Inr (k, row), rows @ [row]))
         else if key_taken col given rows then (Inl ''IntegrityError'', rows)
         else (Inr (given, vs), rows @ [vs]))"

definition update_rows :: "(string \<times> val) option \<Rightarrow> dict \<Rightarrow> store \<Rightarrow> int \<times> store" where
  "update_rows w vs rows =
     (int (length (filter (matches w) rows)),
      map (\<lambda>r. if matches w r then dict_merge r vs else r) rows)"

definition delete_rows :: "(string \<times> val) option \<Rightarrow> store \<Rightarrow> int \<times> store" where
  "delete_rows w rows =
     (int (length (filter (matches w) rows)), filter (\<lambda>r. \<not> matches w r) rows)"

definition mem_execute :: "string \<Rightarrow> query \<Rightarrow> dict option \<Rightarrow> store \<Rightarrow> (exn + val) \<times> store" where
  "mem_execute col q vals rows =
     (let vs = (case vals of None \<Rightarrow> [] | Some d \<Rightarrow> d)
      in case q_stmt q of
           SelectStmt \<Rightarrow> (Inr PyNone, rows)
         | InsertStmt \<Rightarrow>
             (case insert_row col vs rows of
                (Inl e, rows') \<Rightarrow> (Inl e, rows')
              | (Inr (k, _), rows') \<Rightarrow> (Inr k, rows'))
         | UpdateStmt \<Rightarrow>
             (case update_rows (q_where q) vs rows of (n, rows') \<Rightarrow> (Inr (PyInt n), rows'))
         | DeleteStmt \<Rightarrow>
             (case delete_rows (q_where q) rows of (n, rows') \<Rightarrow> (Inr (PyInt n), rows')))"

definition mem_database :: "string \<Rightarrow> store database" where
  "mem_database col =
     \<lparr>fetch_all = (\<lambda>q rows. Inr (select_rows (q_where q) (q_offset q) (q_limit q) rows)),
      fetch_one = (\<lambda>q rows. Inr (select_first (q_where q) (q_offset q) (q_limit q) rows)),
      execute = mem_execute col\<rparr>"

definition mem_router :: "string \<Rightarrow> store DatabasesCRUDRouter" where
  "mem_router col =
     \<lparr>d_table = \<lparr>table_name = ''items'', primary_key_columns = [col]\<rparr>,
      d_db = mem_database col, d_pk = col\<rparr>"

definition mem_model :: "string \<Rightarrow> store model_class" where
  "mem_model col =
     \<lparr>describe_pk_db_column = col,
      describe_name = ''None.Item'',
      await_qs = (\<lambda>q rows. Inr (select_rows (qs_filter q) (qs_offset q) (qs_limit q) rows)),
      first_qs = (\<lambda>q rows. Inr (select_first (qs_filter q) (qs_offset q) (qs_limit q) rows)),
      update_qs = (\<lambda>q vs rows. case update_rows (qs_filter q) vs rows of
                     (n, rows') \<Rightarrow> (Inr n, rows')),
      delete_qs = (\<lambda>q rows. case delete_rows (qs_filter q) rows of
                     (n, rows') \<Rightarrow> (Inr n, rows')),
      construct_save = (\<lambda>vs rows. case insert_row col vs rows of
                     (Inl e, rows') \<Rightarrow> (Inl e, rows')
                   | (Inr (_, row), rows') \<Rightarrow> (Inr row, rows'))\<rparr>"

text \<open>
  Single-request semantics is all the adapters promise. A second client that empties the
  table between a route's read and its write is the store below: every statement
  executes on the emptied table.
\<close>

definition raced_router :: "string \<Rightarrow> store DatabasesCRUDRouter" where
  "raced_router col =
     (mem_router col)\<lparr>d_db := (mem_database col)\<lparr>execute := (\<lambda>q vals rows. mem_execute col q vals [])\<rparr>\<rparr>"

definition raced_model :: "string \<Rightarrow> store model_class" where
  "raced_model col =
     (mem_model col)
       \<lparr>update_qs := (\<lambda>q vs rows. update_qs (mem_model col) q vs []),
        delete_qs := (\<lambda>q rows. delete_qs (mem_model col) q [])\<rparr>"

text \<open>Sample data: the two items of the specification's scenario, and some payloads.\<close>

definition item_a :: dict where
  "item_a = [(''id'', PyInt 1), (''name'', PyStr ''a'')]"

definition item_b :: dict where
  "item_b = [(''id'', PyInt 2), (''name'', PyStr ''b'')]"

definition two_items :: store where
  "two_items = [item_a, item_b]"

definition name_only :: "string \<Rightarrow> schema_obj" where
  "name_only s = \<lparr>field_values = [(''name'', PyStr s)], fields_set = [''name'']\<rparr>"

definition with_id :: "int \<Rightarrow> string \<Rightarrow> schema_obj" where
  "with_id n s =
     \<lparr>field_values = [(''id'', PyInt n), (''name'', PyStr s)], fields_set = [''id'', ''name'']\<rparr>"

text \<open>A model whose primary-key column is \<open>uid\<close>, with an ordinary column named \<open>id\<close>.\<close>

definition uid_item :: dict where
  "uid_item = [(''uid'', PyInt 1), (''id'', PyInt 7), (''name'', PyStr ''a'')]"

section \<open>Dictionaries and serialisations\<close>

lemmas store_defs = matches_def window_def select_rows_def select_first_def bump_key_def
  next_key_def key_taken_def insert_row_def update_rows_def delete_rows_def

lemmas query_defs = table_select_def table_insert_def table_update_def table_delete_def
  where_eq_def limit_q_def offset_q_def model_all_def model_filter_def offset_qs_def limit_qs_def

lemmas mem_defs = mem_execute_def mem_database_def mem_router_def mem_model_def
  raced_router_def raced_model_def Tortoise_init_def

lemmas sample_defs = item_a_def item_b_def two_items_def name_only_def with_id_def uid_item_def

lemmas schema_defs = schema_dict_def schema_dict_exclude_def schema_dict_exclude_unset_def
  dict_merge_def keys_def

lemma keys_fold_update:
  "fst ` set (fold (\<lambda>(k, v). AList.update k v) b a) = fst ` set a \<union> fst ` set b"
proof (induction b arbitrary: a)
  case Nil
  then show ?case by simp
next
  case (Cons p b)
  obtain k v where p: "p = (k, v)" by (cases p)
  have "fst ` set (fold (\<lambda>(k, v). AList.update k v) (p # b) a)
          = fst ` set (AList.update k v a) \<union> fst ` set b"
    using Cons.IH p by simp
  also have "\<dots> = fst ` set a \<union> fst ` set (p # b)"
    unfolding AList.dom_update using p by auto
  finally show ?case .
qed

lemma keys_dict_merge: "keys (dict_merge a b) = keys a \<union> keys b"
  unfolding dict_merge_def keys_def by (rule keys_fold_update)

text \<open>Later items win; with distinct keys in \<open>b\<close> the merge is the override of maps.\<close>

lemma map_of_dict_merge:
  "distinct (map fst b) \<Longrightarrow> map_of (dict_merge a b) = map_of a ++ map_of b"
  unfolding dict_merge_def
proof (induction b arbitrary: a)
  case Nil
  then show ?case by simp
next
  case (Cons p b)
  obtain k v where p: "p = (k, v)" by (cases p)
  from Cons.prems p have fresh: "map_of b k = None" and d: "distinct (map fst b)"
    by (auto simp: map_of_eq_None_iff)
  have "map_of (fold (\<lambda>(k, v). AList.update k v) (p # b) a)
          = map_of (AList.update k v a) ++ map_of b"
    using Cons.IH [OF d] p by simp
  also have "\<dots> = (map_of a)(k \<mapsto> v) ++ map_of b"
    by (simp only: AList.update_conv')
  also have "\<dots> = map_of a ++ map_of (p # b)"
    using fresh p by (auto simp: fun_eq_iff map_add_def split: option.splits)
  finally show ?case .
qed


lemma map_of_filter_keys:
  "map_of (filter (\<lambda>(k, v). P k) xs) k = (if P k then map_of xs k else None)"
  by (induction xs) auto

lemma keys_schema_dict_exclude:
  "keys (schema_dict_exclude s ex) = keys (field_values s) - set ex"
  unfolding keys_def schema_dict_exclude_def by force

lemma map_of_schema_dict_exclude:
  "map_of (schema_dict_exclude s ex) k = (if k \<in> set ex then None else map_of (field_values s) k)"
  unfolding schema_dict_exclude_def by (simp add: map_of_filter_keys)

section \<open>The routes, branch by branch\<close>

lemma mem_router_init:
  "Databases_init \<lparr>table_name = ''items'', primary_key_columns = [col]\<rparr> (mem_database col)
     = Inr (mem_router col)"
  by (simp add: Databases_init_def mem_router_def)

lemma Databases_get_one_found:
  "fetch_one (d_db R) (where_eq table_select (d_pk R) item_id) st = Inr (Some row) \<Longrightarrow> row \<noteq> []
     \<Longrightarrow> Databases_get_one R item_id st = Inr row"
  unfolding Databases_get_one_def by (simp add: Let_def)

lemma Databases_get_one_absent:
  "fetch_one (d_db R) (where_eq table_select (d_pk R) item_id) st = Inr None
     \<Longrightarrow> Databases_get_one R item_id st = Inl NOT_FOUND"
  unfolding Databases_get_one_def by (simp add: Let_def)

lemma Databases_create_conflict:
  "execute (d_db R) table_insert (Some (schema_dict schema)) st = (Inl e, st')
     \<Longrightarrow> Databases_create R schema st = (Inl (HTTPException 422 ''Key already exists''), st')"
  unfolding Databases_create_def by (simp add: Let_def)

lemma Databases_create_success:
  "execute (d_db R) table_insert (Some (schema_dict schema)) st = (Inr rid, st')
     \<Longrightarrow> Databases_create R schema st
           = (Inr (dict_merge [(d_pk R, rid)] (schema_dict schema)), st')"
  unfolding Databases_create_def by (simp add: Let_def)

lemma Databases_update_result:
  assumes "execute (d_db R) (where_eq table_update (d_pk R) item_id)
             (Some (schema_dict_exclude payload [d_pk R])) st = (Inr rid, st')"
  shows "Databases_update R item_id payload st =
           (if truthy rid
            then (Inr (dict_merge [(d_pk R, rid)] (field_values payload)), st')
            else (Inl NOT_FOUND, st'))"
  using assms unfolding Databases_update_def schema_dict_def by (simp add: Let_def)

lemma Databases_update_no_fetch:
  "Databases_update (R\<lparr>d_db := (d_db R)\<lparr>fetch_one := f1, fetch_all := f2\<rparr>\<rparr>) item_id payload st
     = Databases_update R item_id payload st"
  unfolding Databases_update_def by (simp split: prod.splits sum.splits)

lemma Tortoise_get_one_not_found_iff:
  "Tortoise_get_one T i st = Inl NOT_FOUND
     \<longleftrightarrow> first_qs (t_db_model T) (model_filter ''id'' (PyInt i)) st = Inr None"
  unfolding Tortoise_get_one_def NOT_FOUND_def by (auto split: sum.splits option.splits)

lemma Tortoise_get_one_ignores_pk:
  "Tortoise_get_one (T\<lparr>t_pk := p\<rparr>) i st = Tortoise_get_one T i st"
  unfolding Tortoise_get_one_def by simp

lemma Tortoise_create_propagates:
  "construct_save (t_db_model T) (schema_dict model) st = (Inl e, st')
     \<Longrightarrow> Tortoise_create T model st = (Inl (Propagated e), st')"
  unfolding Tortoise_create_def by simp

lemma Tortoise_create_success:
  "construct_save (t_db_model T) (schema_dict model) st = (Inr db_model, st')
     \<Longrightarrow> Tortoise_create T model st = (Inr db_model, st')"
  unfolding Tortoise_create_def by simp

lemmas route_defs = Databases_get_all_def Databases_get_one_def Databases_create_def
  Databases_update_def Databases_delete_all_def Databases_delete_one_def
  Tortoise_get_all_def Tortoise_get_all_query_def Tortoise_get_one_def Tortoise_create_def
  Tortoise_update_def Tortoise_delete_all_def Tortoise_delete_one_def NOT_FOUND_def

section \<open>The in-memory store\<close>







text \<open>A key that no row holds: a keyed select finds nothing, a keyed update touches nothing.\<close>

lemma no_match_filter:
  "\<not> key_taken col v rows \<Longrightarrow> filter (matches (Some (col, v))) rows = []"
  by (auto simp: key_taken_def list_ex_iff filter_empty_conv matches_def)

lemma update_rows_no_match:
  assumes "\<not> key_taken col v rows"
  shows "update_rows (Some (col, v)) vs rows = (0, rows)"
proof -
  have "\<forall>r \<in> set rows. \<not> matches (Some (col, v)) r"
    using assms by (auto simp: key_taken_def list_ex_iff matches_def)
  then have "map (\<lambda>r. if matches (Some (col, v)) r then dict_merge r vs else r) rows = rows"
    by (simp add: map_idI)
  then show ?thesis
    using assms by (simp add: update_rows_def no_match_filter)
qed

text \<open>
  On the store, where an update reports the rows it touched, the query-builder routes
  answer a key that no row holds with \<open>NOT_FOUND\<close> and leave the table as it was.
\<close>

lemma absent_key_query_builder_store:
  assumes "\<not> key_taken col item_id rows"
  shows "Databases_get_one (mem_router col) item_id rows = Inl NOT_FOUND
       \<and> Databases_update (mem_router col) item_id payload rows = (Inl NOT_FOUND, rows)
       \<and> Databases_delete_one (mem_router col) item_id rows = (Inl NOT_FOUND, rows)"
proof -
  have g: "Databases_get_one (mem_router col) item_id rows = Inl NOT_FOUND"
    by (rule Databases_get_one_absent)
      (simp add: mem_router_def mem_database_def where_eq_def table_select_def
        select_first_def select_rows_def window_def no_match_filter [OF assms])
  have "execute (d_db (mem_router col)) (where_eq table_update (d_pk (mem_router col)) item_id)
          (Some (schema_dict_exclude payload [d_pk (mem_router col)])) rows
          = (Inr (PyInt 0), rows)"
    by (simp add: mem_router_def mem_database_def mem_execute_def where_eq_def table_update_def
        update_rows_no_match [OF assms])
  from Databases_update_result [OF this]
  have u: "Databases_update (mem_router col) item_id payload rows = (Inl NOT_FOUND, rows)"
    by simp
  have d: "Databases_delete_one (mem_router col) item_id rows = (Inl NOT_FOUND, rows)"
    unfolding Databases_delete_one_def by (simp add: g Let_def)
  from g u d show ?thesis by simp
qed

text \<open>
  The active-record routes answer with \<open>NOT_FOUND\<close> when no row holds the value in its
  \<open>id\<close> field, whatever the key column of the model is.
\<close>

lemma absent_id_active_record_store:
  assumes "\<not> key_taken ''id'' (PyInt i) rows"
  shows "Tortoise_get_one (Tortoise_init (mem_model col)) i rows = Inl NOT_FOUND
       \<and> Tortoise_update (Tortoise_init (mem_model col)) i model rows = (Inl NOT_FOUND, rows)
       \<and> Tortoise_delete_one (Tortoise_init (mem_model col)) i rows = (Inl NOT_FOUND, rows)"
proof -
  have g: "Tortoise_get_one (Tortoise_init (mem_model col)) i rows = Inl NOT_FOUND"
    by (simp add: Tortoise_get_one_not_found_iff Tortoise_init_def mem_model_def
        model_filter_def select_first_def select_rows_def window_def no_match_filter [OF assms])
  have u: "Tortoise_update (Tortoise_init (mem_model col)) i model rows = (Inl NOT_FOUND, rows)"
    unfolding Tortoise_update_def
    using g by (simp add: Tortoise_init_def mem_model_def model_filter_def
        update_rows_no_match [OF assms])
  have d: "Tortoise_delete_one (Tortoise_init (mem_model col)) i rows = (Inl NOT_FOUND, rows)"
    unfolding Tortoise_delete_one_def by (simp add: g)
  from g u d show ?thesis by simp
qed

text \<open>
  The query-builder \<open>delete_one\<close> on any backend: the record is read first, in the state
  before the delete, and the result of the delete statement decides between that record
  and \<open>NOT_FOUND\<close>.
\<close>

lemma Databases_delete_one_outcome:
  assumes "fetch_one (d_db R) (where_eq table_select (d_pk R) item_id) st = Inr (Some row)"
    and "row \<noteq> []"
    and "execute (d_db R) (where_eq table_delete (d_pk R) item_id) None st = (Inr rid, st')"
  shows "Databases_delete_one R item_id st
           = (if truthy rid then (Inr row, st') else (Inl NOT_FOUND, st'))"
proof -
  have "Databases_get_one R item_id st = Inr row"
    using assms(1,2) by (rule Databases_get_one_found)
  then show ?thesis
    unfolding Databases_delete_one_def by (simp add: assms(3) Let_def)
qed

lemma raced_delete_one_not_found:
  "Databases_get_one (raced_router ''id'') (PyInt 1) two_items = Inr item_a
   \<and> Databases_delete_one (raced_router ''id'') (PyInt 1) two_items = (Inl NOT_FOUND, [])"
  by (simp add: route_defs mem_defs query_defs store_defs sample_defs Let_def)

text \<open>
  The scenario of the specification, on the store: two creates, a list of one, a
  delete, a read of the deleted key, an update of a present and of an absent key. The
  query-builder update answers with the execution's result under the key column.
\<close>

lemma scenario_query_builder:
  "Databases_create (mem_router ''id'') (name_only ''a'') []
     = (Inr item_a, [[(''name'', PyStr ''a''), (''id'', PyInt 1)]])
   \<and> Databases_create (mem_router ''id'') (name_only ''b'')
        [[(''name'', PyStr ''a''), (''id'', PyInt 1)]]
     = (Inr item_b, [[(''name'', PyStr ''a''), (''id'', PyInt 1)],
                     [(''name'', PyStr ''b''), (''id'', PyInt 2)]])
   \<and> Databases_get_all (mem_router ''id'') \<lparr>pg_skip = Some 0, pg_limit = Some 1\<rparr> two_items
     = Inr [item_a]
   \<and> Databases_delete_one (mem_router ''id'') (PyInt 1) two_items = (Inr item_a, [item_b])
   \<and> Databases_get_one (mem_router ''id'') (PyInt 1) [item_b] = Inl NOT_FOUND
   \<and> fst (Databases_update (mem_router ''id'') (PyInt 2) (name_only ''c'') two_items)
     = Inr [(''id'', PyInt 1), (''name'', PyStr ''c'')]
   \<and> fst (Databases_update (mem_router ''id'') (PyInt 99) (name_only ''x'') two_items)
     = Inl NOT_FOUND"
  by (simp add: route_defs mem_defs query_defs store_defs sample_defs schema_defs Let_def)

lemma scenario_active_record:
  "Tortoise_create (Tortoise_init (mem_model ''id'')) (name_only ''a'') []
     = (Inr [(''name'', PyStr ''a''), (''id'', PyInt 1)],
        [[(''name'', PyStr ''a''), (''id'', PyInt 1)]])
   \<and> Tortoise_get_all (Tortoise_init (mem_model ''id'')) \<lparr>pg_skip = Some 0, pg_limit = Some 1\<rparr>
        two_items = Inr [item_a]
   \<and> Tortoise_get_all (Tortoise_init (mem_model ''id'')) \<lparr>pg_skip = Some 1, pg_limit = Some 0\<rparr>
        two_items = Inr [item_b]
   \<and> Tortoise_delete_one (Tortoise_init (mem_model ''id'')) 1 two_items = (Inr item_a, [item_b])
   \<and> Tortoise_get_one (Tortoise_init (mem_model ''id'')) 1 [item_b] = Inl NOT_FOUND
   \<and> fst (Tortoise_update (Tortoise_init (mem_model ''id'')) 2 (name_only ''c'') two_items)
     = Inr [(''id'', PyInt 2), (''name'', PyStr ''c'')]
   \<and> fst (Tortoise_update (Tortoise_init (mem_model ''id'')) 99 (name_only ''x'') two_items)
     = Inl NOT_FOUND"
  by (simp add: route_defs mem_defs query_defs store_defs sample_defs schema_defs Let_def)

section \<open>The claims\<close>

text \<open>
  C1. A key with no matching record, on the active-record adapter. The router of a
  model whose key column is \<open>uid\<close> looks records up by the field \<open>id\<close>. The store holds
  one record, with key 1 and \<open>id = 7\<close>; no record has key 7. Yet \<open>get_one 7\<close> returns
  that record, \<open>update 7\<close> rewrites it and returns it, and \<open>delete_one 7\<close> deletes it and
  returns it: none of the three raises \<open>NOT_FOUND\<close>. Where the routes filter on the
  column that is the key, a key that no row holds does end in \<open>NOT_FOUND\<close>
  (\<open>absent_key_query_builder_store\<close>, \<open>absent_id_active_record_store\<close>).
\<close>

theorem absent_key_answered_through_id_column:
  "t_pk (Tortoise_init (mem_model ''uid'')) = ''uid''
   \<and> key_taken ''uid'' (PyInt 7) [uid_item] = False
   \<and> Tortoise_get_one (Tortoise_init (mem_model ''uid'')) 7 [uid_item] = Inr uid_item
   \<and> Tortoise_update (Tortoise_init (mem_model ''uid'')) 7 (name_only ''x'') [uid_item]
       = (Inr [(''uid'', PyInt 1), (''id'', PyInt 7), (''name'', PyStr ''x'')],
          [[(''uid'', PyInt 1), (''id'', PyInt 7), (''name'', PyStr ''x'')]])
   \<and> Tortoise_delete_one (Tortoise_init (mem_model ''uid'')) 7 [uid_item] = (Inr uid_item, [])"
  by (simp add: route_defs mem_defs query_defs store_defs sample_defs schema_defs)

text \<open>
  C2. Create under a backend error. The query-builder route turns whatever the insert
  raised into the 422 error \<open>Key already exists\<close> (\<open>Databases_create_conflict\<close>) and
  answers a successful insert with the payload laid over the assigned key
  (\<open>Databases_create_success\<close>). The active-record route has no handler
  (\<open>Tortoise_create_propagates\<close>): on the store holding key 1, creating a record with
  key 1 is a conflict through the first adapter and the backend's own
  \<open>IntegrityError\<close> through the second.
\<close>

theorem create_error_translated_only_by_query_builder:
  "Databases_create (mem_router ''id'') (with_id 1 ''d'') two_items
     = (Inl (HTTPException 422 ''Key already exists''), two_items)
   \<and> Tortoise_create (Tortoise_init (mem_model ''id'')) (with_id 1 ''d'') two_items
     = (Inl (Propagated ''IntegrityError''), two_items)"
proof -
  have e: "insert_row ''id'' (schema_dict (with_id 1 ''d'')) two_items
             = (Inl ''IntegrityError'', two_items)"
    by (simp add: store_defs sample_defs schema_defs)
  have "execute (d_db (mem_router ''id'')) table_insert (Some (schema_dict (with_id 1 ''d'')))
          two_items = (Inl ''IntegrityError'', two_items)"
    by (simp add: mem_defs query_defs e)
  then have d: "Databases_create (mem_router ''id'') (with_id 1 ''d'') two_items
     = (Inl (HTTPException 422 ''Key already exists''), two_items)"
    by (rule Databases_create_conflict)
  have "construct_save (t_db_model (Tortoise_init (mem_model ''id'')))
          (schema_dict (with_id 1 ''d'')) two_items = (Inl ''IntegrityError'', two_items)"
    by (simp add: mem_defs e)
  then have t: "Tortoise_create (Tortoise_init (mem_model ''id'')) (with_id 1 ''d'') two_items
     = (Inl (Propagated ''IntegrityError''), two_items)"
    by (rule Tortoise_create_propagates)
  from d t show ?thesis by simp
qed

text \<open>
  C3. The active-record \<open>get_one\<close> and the derived key column. The router of a model
  whose key column is \<open>uid\<close> holds \<open>uid\<close> as its key name, yet \<open>get_one\<close> filters on the
  field \<open>id\<close> (\<open>Tortoise_get_one_ignores_pk\<close>: the key name is never consulted). With
  the one record \<open>uid = 1, id = 7\<close> in the store, \<open>get_one 1\<close> raises \<open>NOT_FOUND\<close>
  although the record with key 1 exists, and \<open>get_one 7\<close> returns that record.
\<close>

theorem active_record_get_one_filters_on_id:
  "t_pk (Tortoise_init (mem_model ''uid'')) = ''uid''
   \<and> map_of uid_item ''uid'' = Some (PyInt 1)
   \<and> Tortoise_get_one (Tortoise_init (mem_model ''uid'')) 1 [uid_item] = Inl NOT_FOUND
   \<and> Tortoise_get_one (Tortoise_init (mem_model ''uid'')) 7 [uid_item] = Inr uid_item"
  by (simp add: Tortoise_get_one_def mem_defs query_defs store_defs sample_defs)

text \<open>
  C4. The query-builder \<open>update\<close>. The statement it executes is an update filtered by
  the key column equal to \<open>item_id\<close>, with the payload's fields except the key. When
  the execution reports \<open>n\<close> affected rows: for \<open>n = 0\<close> the route raises \<open>NOT_FOUND\<close>,
  otherwise it returns the payload laid over the key column. The fields of the returned
  record are the key column and the payload's fields, no others, and no read of the
  collaborator takes part: replacing both fetch operations changes nothing.
\<close>

theorem query_builder_update_outcome:
  assumes "execute (d_db R) (where_eq table_update (d_pk R) item_id)
             (Some (schema_dict_exclude payload [d_pk R])) st = (Inr (PyInt n), st')"
  shows "(n = 0 \<longrightarrow> Databases_update R item_id payload st = (Inl NOT_FOUND, st'))
       \<and> (n \<noteq> 0 \<longrightarrow> Databases_update R item_id payload st
              = (Inr (dict_merge [(d_pk R, PyInt n)] (schema_dict payload)), st'))
       \<and> keys (dict_merge [(d_pk R, PyInt n)] (schema_dict payload))
              = insert (d_pk R) (keys (schema_dict payload))
       \<and> q_stmt (where_eq table_update (d_pk R) item_id) = UpdateStmt
       \<and> q_where (where_eq table_update (d_pk R) item_id) = Some (d_pk R, item_id)
       \<and> keys (schema_dict_exclude payload [d_pk R]) = keys (schema_dict payload) - {d_pk R}
       \<and> (\<forall>k. k \<noteq> d_pk R \<longrightarrow>
              map_of (schema_dict_exclude payload [d_pk R]) k = map_of (schema_dict payload) k)
       \<and> (\<forall>f1 f2. Databases_update (R\<lparr>d_db := (d_db R)\<lparr>fetch_one := f1, fetch_all := f2\<rparr>\<rparr>)
                     item_id payload st
                   = Databases_update R item_id payload st)"
proof -
  have res: "Databases_update R item_id payload st =
           (if truthy (PyInt n)
            then (Inr (dict_merge [(d_pk R, PyInt n)] (field_values payload)), st')
            else (Inl NOT_FOUND, st'))"
    using assms by (rule Databases_update_result)
  have k: "keys (dict_merge [(d_pk R, PyInt n)] (schema_dict payload))
              = insert (d_pk R) (keys (schema_dict payload))"
    by (simp add: keys_dict_merge) (simp add: keys_def)
  have q: "q_stmt (where_eq table_update (d_pk R) item_id) = UpdateStmt"
    "q_where (where_eq table_update (d_pk R) item_id) = Some (d_pk R, item_id)"
    by (simp_all add: where_eq_def table_update_def)
  have v: "keys (schema_dict_exclude payload [d_pk R]) = keys (schema_dict payload) - {d_pk R}"
    by (simp add: keys_schema_dict_exclude schema_dict_def)
  have m: "\<forall>k. k \<noteq> d_pk R \<longrightarrow>
              map_of (schema_dict_exclude payload [d_pk R]) k = map_of (schema_dict payload) k"
    by (simp add: map_of_schema_dict_exclude schema_dict_def)
  show ?thesis
    using res k q v m by (simp add: Databases_update_no_fetch schema_dict_def)
qed

theorem query_builder_update_outcome_witness:
  "execute (d_db (mem_router ''id'')) (where_eq table_update (d_pk (mem_router ''id'')) (PyInt 2))
     (Some (schema_dict_exclude (name_only ''c'') [d_pk (mem_router ''id'')])) two_items
     = (Inr (PyInt 1), [item_a, [(''id'', PyInt 2), (''name'', PyStr ''c'')]])
   \<and> Databases_update (mem_router ''id'') (PyInt 2) (name_only ''c'') two_items
     = (Inr [(''id'', PyInt 1), (''name'', PyStr ''c'')],
        [item_a, [(''id'', PyInt 2), (''name'', PyStr ''c'')]])
   \<and> execute (d_db (mem_router ''id'')) (where_eq table_update (d_pk (mem_router ''id'')) (PyInt 99))
     (Some (schema_dict_exclude (name_only ''c'') [d_pk (mem_router ''id'')])) two_items
     = (Inr (PyInt 0), two_items)
   \<and> Databases_update (mem_router ''id'') (PyInt 99) (name_only ''c'') two_items
     = (Inl NOT_FOUND, two_items)"
proof -
  have h1: "execute (d_db (mem_router ''id''))
     (where_eq table_update (d_pk (mem_router ''id'')) (PyInt 2))
     (Some (schema_dict_exclude (name_only ''c'') [d_pk (mem_router ''id'')])) two_items
     = (Inr (PyInt 1), [item_a, [(''id'', PyInt 2), (''name'', PyStr ''c'')]])"
    by (simp add: mem_defs query_defs store_defs sample_defs schema_defs)
  have h2: "execute (d_db (mem_router ''id''))
     (where_eq table_update (d_pk (mem_router ''id'')) (PyInt 99))
     (Some (schema_dict_exclude (name_only ''c'') [d_pk (mem_router ''id'')])) two_items
     = (Inr (PyInt 0), two_items)"
    by (simp add: mem_defs query_defs store_defs sample_defs schema_defs)
  have m: "dict_merge [(d_pk (mem_router ''id''), PyInt 1)] (schema_dict (name_only ''c''))
             = [(''id'', PyInt 1), (''name'', PyStr ''c'')]"
    by (simp add: mem_defs sample_defs schema_defs)
  from query_builder_update_outcome [OF h1] query_builder_update_outcome [OF h2] h1 h2 m
  show ?thesis by simp
qed

text \<open>
  C5. \<open>delete_one\<close> on a key that is present, on the active-record adapter. The router
  of a model whose key column is \<open>uid\<close> looks the record up, and deletes, by the field
  \<open>id\<close>. The store holds one record, with key 1 and \<open>id = 7\<close>. \<open>delete_one 1\<close> raises
  \<open>NOT_FOUND\<close> and deletes nothing although key 1 is present; \<open>delete_one 7\<close>, a key
  that no record has, deletes the record of key 1 and returns it. The query-builder
  route reads first and lets the delete statement's result decide
  (\<open>Databases_delete_one_outcome\<close>, \<open>raced_delete_one_not_found\<close>).
\<close>

theorem present_key_missed_through_id_column:
  "t_pk (Tortoise_init (mem_model ''uid'')) = ''uid''
   \<and> key_taken ''uid'' (PyInt 1) [uid_item] = True
   \<and> Tortoise_delete_one (Tortoise_init (mem_model ''uid'')) 1 [uid_item]
       = (Inl NOT_FOUND, [uid_item])
   \<and> key_taken ''uid'' (PyInt 7) [uid_item] = False
   \<and> Tortoise_delete_one (Tortoise_init (mem_model ''uid'')) 7 [uid_item] = (Inr uid_item, [])"
  by (simp add: route_defs mem_defs query_defs store_defs sample_defs schema_defs)

text \<open>
  C6. \<open>delete_all\<close>. On both adapters the route's answer is the list route's answer,
  with skip 0 and no limit, in the state the delete left; when the delete raises, the
  exception passes through. On the store the delete removes every row, so the route
  returns the empty list and leaves a store on which the same list is empty again.
\<close>

theorem delete_all_returns_empty_list:
  "fst (Databases_delete_all R st)
       = (case execute (d_db R) table_delete None st of
            (Inl e, st') \<Rightarrow> Inl (Propagated e)
          | (Inr rid, st') \<Rightarrow> Databases_get_all R \<lparr>pg_skip = Some 0, pg_limit = None\<rparr> st')
   \<and> fst (Tortoise_delete_all T ts)
       = (case delete_qs (t_db_model T) model_all ts of
            (Inl e, ts') \<Rightarrow> Inl (Propagated e)
          | (Inr n, ts') \<Rightarrow> Tortoise_get_all T \<lparr>pg_skip = Some 0, pg_limit = None\<rparr> ts')
   \<and> Databases_delete_all (mem_router col) rows = (Inr [], [])
   \<and> Databases_get_all (mem_router col) \<lparr>pg_skip = Some 0, pg_limit = None\<rparr>
        (snd (Databases_delete_all (mem_router col) rows)) = Inr []
   \<and> Tortoise_delete_all (Tortoise_init (mem_model col)) rows = (Inr [], [])
   \<and> Tortoise_get_all (Tortoise_init (mem_model col)) \<lparr>pg_skip = Some 0, pg_limit = None\<rparr>
        (snd (Tortoise_delete_all (Tortoise_init (mem_model col)) rows)) = Inr []"
proof -
  have a: "Databases_delete_all (mem_router col) rows = (Inr [], [])"
    by (simp add: Databases_delete_all_def Databases_get_all_def mem_router_def
        mem_database_def mem_execute_def table_delete_def delete_rows_def matches_def
        table_select_def limit_q_def offset_q_def select_rows_def window_def)
  have b: "Tortoise_delete_all (Tortoise_init (mem_model col)) rows = (Inr [], [])"
    by (simp add: Tortoise_delete_all_def Tortoise_get_all_def Tortoise_get_all_query_def
        Tortoise_init_def mem_model_def model_all_def delete_rows_def matches_def
        offset_qs_def select_rows_def window_def)
  have c: "Databases_get_all (mem_router col) \<lparr>pg_skip = Some 0, pg_limit = None\<rparr> [] = Inr []"
    by (simp add: Databases_get_all_def mem_router_def mem_database_def
        table_select_def limit_q_def offset_q_def select_rows_def window_def)
  have d: "Tortoise_get_all (Tortoise_init (mem_model col)) \<lparr>pg_skip = Some 0, pg_limit = None\<rparr> []
             = Inr []"
    by (simp add: Tortoise_get_all_def Tortoise_get_all_query_def
        Tortoise_init_def mem_model_def model_all_def offset_qs_def select_rows_def window_def)
  have e: "fst (Databases_delete_all R st)
       = (case execute (d_db R) table_delete None st of
            (Inl e, st') \<Rightarrow> Inl (Propagated e)
          | (Inr rid, st') \<Rightarrow> Databases_get_all R \<lparr>pg_skip = Some 0, pg_limit = None\<rparr> st')"
    by (simp add: Databases_delete_all_def split: prod.splits sum.splits)
  have f: "fst (Tortoise_delete_all T ts)
       = (case delete_qs (t_db_model T) model_all ts of
            (Inl e, ts') \<Rightarrow> Inl (Propagated e)
          | (Inr n, ts') \<Rightarrow> Tortoise_get_all T \<lparr>pg_skip = Some 0, pg_limit = None\<rparr> ts')"
    by (simp add: Tortoise_delete_all_def split: prod.splits sum.splits)
  from a b c d e f show ?thesis by simp
qed

text \<open>
  C7. The active-record list route. On every model class and every state of the store,
  the route's answer is what the model class answers when the queryset with no filter,
  with the pagination's skip as offset and with a limit exactly when the pagination's
  limit is neither absent nor zero is awaited (an exception passes through). So the
  offset is always applied and a limit of zero is no limit: the answers for limit 0 and
  for no limit are equal. On the store, skip \<open>k\<close> with no limit or with limit 0 answers
  all rows after the first \<open>k\<close>, and a nonzero limit \<open>n\<close> answers the first \<open>n\<close> of those.
\<close>

theorem active_record_limit_zero_is_no_limit:
  "Tortoise_get_all T pg st
     = (case await_qs (t_db_model T)
               \<lparr>qs_filter = None, qs_offset = pg_skip pg,
                qs_limit = (case pg_limit pg of
                              None \<Rightarrow> None
                            | Some n \<Rightarrow> if n = 0 then None else Some n)\<rparr> st of
          Inl e \<Rightarrow> Inl (Propagated e)
        | Inr models \<Rightarrow> Inr models)
   \<and> Tortoise_get_all T \<lparr>pg_skip = s, pg_limit = Some 0\<rparr> st
     = Tortoise_get_all T \<lparr>pg_skip = s, pg_limit = None\<rparr> st
   \<and> Tortoise_get_all (Tortoise_init (mem_model col)) \<lparr>pg_skip = Some k, pg_limit = None\<rparr> rows
     = Inr (drop (nat k) rows)
   \<and> Tortoise_get_all (Tortoise_init (mem_model col)) \<lparr>pg_skip = Some k, pg_limit = Some n\<rparr> rows
     = Inr (if n = 0 then drop (nat k) rows else take (nat n) (drop (nat k) rows))
   \<and> qs_offset (Tortoise_get_all_query pg) = pg_skip pg
   \<and> qs_limit (Tortoise_get_all_query pg)
       = (case pg_limit pg of None \<Rightarrow> None | Some n \<Rightarrow> if n = 0 then None else Some n)
   \<and> qs_filter (Tortoise_get_all_query pg) = None"
proof -
  have q: "Tortoise_get_all_query pg
     = \<lparr>qs_filter = None, qs_offset = pg_skip pg,
        qs_limit = (case pg_limit pg of
                      None \<Rightarrow> None
                    | Some n \<Rightarrow> if n = 0 then None else Some n)\<rparr>" for pg
    by (simp add: Tortoise_get_all_query_def Let_def offset_qs_def limit_qs_def model_all_def
        split: option.splits)
  have sel: "select_rows None (Some k) lim rows
     = (case lim of None \<Rightarrow> drop (nat k) rows | Some n \<Rightarrow> take (nat n) (drop (nat k) rows))"
    for lim
    by (simp add: select_rows_def window_def matches_def split: option.splits)
  have a: "Tortoise_get_all (Tortoise_init (mem_model col)) \<lparr>pg_skip = Some k, pg_limit = None\<rparr>
             rows = Inr (drop (nat k) rows)"
    by (simp add: Tortoise_get_all_def q Tortoise_init_def mem_model_def sel)
  have b: "Tortoise_get_all (Tortoise_init (mem_model col))
             \<lparr>pg_skip = Some k, pg_limit = Some n\<rparr> rows
     = Inr (if n = 0 then drop (nat k) rows else take (nat n) (drop (nat k) rows))"
    by (simp add: Tortoise_get_all_def q Tortoise_init_def mem_model_def sel)
  show ?thesis
    unfolding a b by (simp add: Tortoise_get_all_def q)
qed



text \<open>
  C9. The key of the record the query-builder \<open>update\<close> returns. When the execution's
  result \<open>rid\<close> is true, the returned record is the whole payload laid over the
  one-field record holding \<open>rid\<close> under the key column. Its key is the payload's own value
  for the key column when the payload has one, and \<open>rid\<close> otherwise. The path
  parameter does not enter: another \<open>item_id\<close> with the same execution result gives the
  same answer.
\<close>

theorem query_builder_update_key_from_execute:
  assumes ex: "execute (d_db R) (where_eq table_update (d_pk R) item_id)
             (Some (schema_dict_exclude payload [d_pk R])) st = (Inr rid, st')"
    and t: "truthy rid"
    and d: "distinct (map fst (schema_dict payload))"
  shows "Databases_update R item_id payload st
           = (Inr (dict_merge [(d_pk R, rid)] (schema_dict payload)), st')
       \<and> map_of (dict_merge [(d_pk R, rid)] (schema_dict payload)) (d_pk R)
           = (case map_of (schema_dict payload) (d_pk R) of Some v \<Rightarrow> Some v | None \<Rightarrow> Some rid)
       \<and> (\<forall>other st2. execute (d_db R) (where_eq table_update (d_pk R) other)
                          (Some (schema_dict_exclude payload [d_pk R])) st = (Inr rid, st2)
            \<longrightarrow> fst (Databases_update R other payload st)
                  = fst (Databases_update R item_id payload st))"
proof -
  have r: "Databases_update R item_id payload st
           = (Inr (dict_merge [(d_pk R, rid)] (schema_dict payload)), st')"
    using Databases_update_result [OF ex] t by (simp add: schema_dict_def)
  have m: "map_of (dict_merge [(d_pk R, rid)] (schema_dict payload)) (d_pk R)
           = (case map_of (schema_dict payload) (d_pk R) of Some v \<Rightarrow> Some v | None \<Rightarrow> Some rid)"
    by (simp add: map_of_dict_merge [OF d] map_add_def split: option.splits)
  have o: "fst (Databases_update R other payload st) = fst (Databases_update R item_id payload st)"
    if "execute (d_db R) (where_eq table_update (d_pk R) other)
          (Some (schema_dict_exclude payload [d_pk R])) st = (Inr rid, st2)" for other st2
    using Databases_update_result [OF that] t r by (simp add: schema_dict_def)
  from r m o show ?thesis by blast
qed

theorem query_builder_update_key_from_execute_witness:
  "execute (d_db (mem_router ''id'')) (where_eq table_update (d_pk (mem_router ''id'')) (PyInt 2))
     (Some (schema_dict_exclude (with_id 9 ''c'') [d_pk (mem_router ''id'')])) two_items
     = (Inr (PyInt 1), [item_a, [(''id'', PyInt 2), (''name'', PyStr ''c'')]])
   \<and> truthy (PyInt 1)
   \<and> distinct (map fst (schema_dict (with_id 9 ''c'')))
   \<and> Databases_update (mem_router ''id'') (PyInt 2) (with_id 9 ''c'') two_items
     = (Inr [(''id'', PyInt 9), (''name'', PyStr ''c'')],
        [item_a, [(''id'', PyInt 2), (''name'', PyStr ''c'')]])
   \<and> execute (d_db (mem_router ''id'')) (where_eq table_update (d_pk (mem_router ''id'')) (PyInt 1))
     (Some (schema_dict_exclude (with_id 9 ''c'') [d_pk (mem_router ''id'')])) two_items
     = (Inr (PyInt 1), [[(''id'', PyInt 1), (''name'', PyStr ''c'')], item_b])
   \<and> fst (Databases_update (mem_router ''id'') (PyInt 1) (with_id 9 ''c'') two_items)
     = Inr [(''id'', PyInt 9), (''name'', PyStr ''c'')]
   \<and> execute (d_db (mem_router ''id'')) (where_eq table_update (d_pk (mem_router ''id'')) (PyInt 2))
     (Some (schema_dict_exclude (name_only ''c'') [d_pk (mem_router ''id'')])) two_items
     = (Inr (PyInt 1), [item_a, [(''id'', PyInt 2), (''name'', PyStr ''c'')]])
   \<and> distinct (map fst (schema_dict (name_only ''c'')))
   \<and> Databases_update (mem_router ''id'') (PyInt 2) (name_only ''c'') two_items
     = (Inr [(''id'', PyInt 1), (''name'', PyStr ''c'')],
        [item_a, [(''id'', PyInt 2), (''name'', PyStr ''c'')]])"
proof -
  have h1: "execute (d_db (mem_router ''id''))
     (where_eq table_update (d_pk (mem_router ''id'')) (PyInt 2))
     (Some (schema_dict_exclude (with_id 9 ''c'') [d_pk (mem_router ''id'')])) two_items
     = (Inr (PyInt 1), [item_a, [(''id'', PyInt 2), (''name'', PyStr ''c'')]])"
    by (simp add: mem_defs query_defs store_defs sample_defs schema_defs)
  have h2: "truthy (PyInt 1)" by simp
  have h3: "distinct (map fst (schema_dict (with_id 9 ''c'')))"
    by (simp add: sample_defs schema_defs)
  have o: "execute (d_db (mem_router ''id''))
     (where_eq table_update (d_pk (mem_router ''id'')) (PyInt 1))
     (Some (schema_dict_exclude (with_id 9 ''c'') [d_pk (mem_router ''id'')])) two_items
     = (Inr (PyInt 1), [[(''id'', PyInt 1), (''name'', PyStr ''c'')], item_b])"
    by (simp add: mem_defs query_defs store_defs sample_defs schema_defs)
  have g1: "execute (d_db (mem_router ''id''))
     (where_eq table_update (d_pk (mem_router ''id'')) (PyInt 2))
     (Some (schema_dict_exclude (name_only ''c'') [d_pk (mem_router ''id'')])) two_items
     = (Inr (PyInt 1), [item_a, [(''id'', PyInt 2), (''name'', PyStr ''c'')]])"
    by (simp add: mem_defs query_defs store_defs sample_defs schema_defs)
  have g3: "distinct (map fst (schema_dict (name_only ''c'')))"
    by (simp add: sample_defs schema_defs)
  have m1: "dict_merge [(d_pk (mem_router ''id''), PyInt 1)] (schema_dict (with_id 9 ''c''))
              = [(''id'', PyInt 9), (''name'', PyStr ''c'')]"
    by (simp add: mem_defs sample_defs schema_defs)
  have m2: "dict_merge [(d_pk (mem_router ''id''), PyInt 1)] (schema_dict (name_only ''c''))
              = [(''id'', PyInt 1), (''name'', PyStr ''c'')]"
    by (simp add: mem_defs sample_defs schema_defs)
  note a = query_builder_update_key_from_execute [OF h1 h2 h3]
  note b = query_builder_update_key_from_execute [OF g1 h2 g3]
  from a have u1: "Databases_update (mem_router ''id'') (PyInt 2) (with_id 9 ''c'') two_items
     = (Inr [(''id'', PyInt 9), (''name'', PyStr ''c'')],
        [item_a, [(''id'', PyInt 2), (''name'', PyStr ''c'')]])"
    using m1 by simp
  from a o have u2: "fst (Databases_update (mem_router ''id'') (PyInt 1) (with_id 9 ''c'') two_items)
     = fst (Databases_update (mem_router ''id'') (PyInt 2) (with_id 9 ''c'') two_items)"
    by blast
  from b have u3: "Databases_update (mem_router ''id'') (PyInt 2) (name_only ''c'') two_items
     = (Inr [(''id'', PyInt 1), (''name'', PyStr ''c'')],
        [item_a, [(''id'', PyInt 2), (''name'', PyStr ''c'')]])"
    using m2 by simp
  from h1 h2 h3 o g1 g3 u1 u2 u3 show ?thesis by simp
qed

text \<open>
  C10. The active-record \<open>delete_one\<close>. It raises \<open>NOT_FOUND\<close> exactly when its initial
  \<open>get_one\<close> does. Once \<open>get_one\<close> has returned a record, whatever count the delete
  reports, zero included, the route returns that record.
\<close>

theorem active_record_delete_one_not_found_iff:
  "(fst (Tortoise_delete_one T i st) = Inl NOT_FOUND
      \<longleftrightarrow> Tortoise_get_one T i st = Inl NOT_FOUND)
   \<and> (\<forall>model n st'. Tortoise_get_one T i st = Inr model
         \<and> delete_qs (t_db_model T) (model_filter ''id'' (PyInt i)) st = (Inr n, st')
        \<longrightarrow> Tortoise_delete_one T i st = (Inr model, st'))"
  unfolding Tortoise_delete_one_def NOT_FOUND_def
  by (auto split: sum.splits prod.splits)

theorem active_record_delete_one_not_found_iff_witness:
  "Tortoise_get_one (Tortoise_init (raced_model ''id'')) 1 two_items = Inr item_a
   \<and> delete_qs (t_db_model (Tortoise_init (raced_model ''id''))) (model_filter ''id'' (PyInt 1))
       two_items = (Inr 0, [])
   \<and> Tortoise_delete_one (Tortoise_init (raced_model ''id'')) 1 two_items = (Inr item_a, [])
   \<and> fst (Tortoise_delete_one (Tortoise_init (raced_model ''id'')) 1 two_items) \<noteq> Inl NOT_FOUND
   \<and> Tortoise_get_one (Tortoise_init (raced_model ''id'')) 99 two_items = Inl NOT_FOUND
   \<and> fst (Tortoise_delete_one (Tortoise_init (raced_model ''id'')) 99 two_items) = Inl NOT_FOUND"
proof -
  have h1: "Tortoise_get_one (Tortoise_init (raced_model ''id'')) 1 two_items = Inr item_a"
    by (simp add: Tortoise_get_one_def mem_defs query_defs store_defs sample_defs)
  have h2: "delete_qs (t_db_model (Tortoise_init (raced_model ''id'')))
       (model_filter ''id'' (PyInt 1)) two_items = (Inr 0, [])"
    by (simp add: mem_defs query_defs store_defs sample_defs)
  have h3: "Tortoise_get_one (Tortoise_init (raced_model ''id'')) 99 two_items = Inl NOT_FOUND"
    by (simp add: Tortoise_get_one_def mem_defs query_defs store_defs sample_defs)
  note a = active_record_delete_one_not_found_iff
    [of "Tortoise_init (raced_model ''id'')" 1 two_items]
  note b = active_record_delete_one_not_found_iff
    [of "Tortoise_init (raced_model ''id'')" 99 two_items]
  from a h1 h2 have d: "Tortoise_delete_one (Tortoise_init (raced_model ''id'')) 1 two_items
      = (Inr item_a, [])"
    by blast
  from b h3 have e: "fst (Tortoise_delete_one (Tortoise_init (raced_model ''id'')) 99 two_items)
      = Inl NOT_FOUND"
    by blast
  from h1 h2 h3 d e show ?thesis by simp
qed

end
